theory Spec2Isabelle
  imports Complex_Main "HOL-Library.Word" "HOL-Library.Multiset"
begin

section \<open>JavaScript strings\<close>

text \<open>
  A JavaScript string is a sequence of UTF-16 code units. \<open>js\<close> turns an ASCII literal
  into such a sequence.
\<close>

type_synonym jschar = "16 word"
type_synonym jsstring = "jschar list"

definition js :: "string \<Rightarrow> jsstring" where
  "js s = map of_char s"

text \<open>
  The characters matched by the regular expression class \<open>\s\<close> and removed by
  \<open>String.prototype.trim\<close>: TAB, LF, VT, FF, CR, SP, NBSP, the Unicode space separators,
  LS, PS and the byte order mark.
\<close>

definition isWhiteSpace :: "jschar \<Rightarrow> bool" where
  "isWhiteSpace c \<longleftrightarrow>
     (0x09 \<le> c \<and> c \<le> 0x0D) \<or> c = 0x20 \<or> c = 0xA0 \<or> c = 0x1680 \<or>
     (0x2000 \<le> c \<and> c \<le> 0x200A) \<or> c = 0x2028 \<or> c = 0x2029 \<or> c = 0x202F \<or>
     c = 0x205F \<or> c = 0x3000 \<or> c = 0xFEFF"

definition trim :: "jsstring \<Rightarrow> jsstring" where
  "trim s = rev (dropWhile isWhiteSpace (rev (dropWhile isWhiteSpace s)))"

text \<open>
  \<open>s.split(/\s+/)\<close>: the pieces of \<open>s\<close> between maximal runs of white space. A run at
  the start or at the end of \<open>s\<close> leaves an empty piece there, and the empty string splits
  into one empty piece.
\<close>

function split_ws :: "jsstring \<Rightarrow> jsstring list" where
  "split_ws [] = [[]]"
| "split_ws (c # cs) =
     (if isWhiteSpace c then [] # split_ws (dropWhile isWhiteSpace cs)
      else (case split_ws cs of [] \<Rightarrow> [[c]] | t # ts \<Rightarrow> (c # t) # ts))"
  by pat_completeness auto
termination
  by (relation "measure length") (auto simp: le_imp_less_Suc length_dropWhile_le)

text \<open>
  \<open>toLowerCase\<close> on the letters A to Z. The only code units outside A to Z that
  JavaScript lowers to text with an ASCII letter in it are U+212A (to k) and U+0130
  (to i followed by U+0307); neither can complete one of the four words searched for
  below, so \<open>isChinese\<close> is the same under the full Unicode mapping.
\<close>

definition toLowerCase :: "jsstring \<Rightarrow> jsstring" where
  "toLowerCase s = map (\<lambda>c. if 0x41 \<le> c \<and> c \<le> 0x5A then c + 0x20 else c) s"

fun js_includes :: "jsstring \<Rightarrow> jsstring \<Rightarrow> bool" where
  "js_includes [] sub = (sub = [])"
| "js_includes (c # cs) sub = (take (length sub) (c # cs) = sub \<or> js_includes cs sub)"

text \<open>\<open>Math.round\<close>: the nearest integer, a tie going up.\<close>

definition js_round :: "rat \<Rightarrow> int" where
  "js_round x = \<lfloor>x + 1 / 2\<rfloor>"


section \<open>services/geminiService.ts: the pace of a speech\<close>

datatype js_error = Thrown string

text \<open>
  The object parsed from the remote answer. The schema sent to the remote service has
  no \<open>wpm\<close> property, and any property may be missing from the answer.
\<close>

record AnalysisResult =
  overallScore :: int
  transcript :: "jsstring option"
  wpm :: "int option"
  sentiment :: jsstring

definition isChinese :: "jsstring \<Rightarrow> bool" where
  "isChinese language \<longleftrightarrow>
     js_includes (toLowerCase language) (js ''cantonese'') \<or>
     js_includes (toLowerCase language) (js ''mandarin'') \<or>
     js_includes (toLowerCase language) (js ''chinese'') \<or>
     js_includes (toLowerCase language) (js ''japanese'')"

text \<open>
  The transcript without the characters that are neither in U+4E00 to U+9FA5 nor
  ASCII letters or digits: \<open>transcript.replace(/[^...]/g, "")\<close>.
\<close>

definition cleanText :: "jsstring \<Rightarrow> jsstring" where
  "cleanText t = filter (\<lambda>c. (0x4E00 \<le> c \<and> c \<le> 0x9FA5) \<or> (0x61 \<le> c \<and> c \<le> 0x7A) \<or>
                              (0x41 \<le> c \<and> c \<le> 0x5A) \<or> (0x30 \<le> c \<and> c \<le> 0x39)) t"

text \<open>A missing transcript and the empty string are both falsy: the count stays 0.\<close>

definition contentCount :: "jsstring \<Rightarrow> jsstring option \<Rightarrow> nat" where
  "contentCount language tr =
     (case tr of
        None \<Rightarrow> 0
      | Some t \<Rightarrow>
          if t = [] then 0
          else if isChinese language then length (cleanText t)
          else length (split_ws (trim t)))"

definition safeDuration :: "rat \<Rightarrow> rat" where
  "safeDuration durationSeconds = max durationSeconds 1"

definition calculatedPace :: "jsstring \<Rightarrow> jsstring option \<Rightarrow> rat \<Rightarrow> int" where
  "calculatedPace language tr durationSeconds =
     js_round (of_nat (contentCount language tr) / (safeDuration durationSeconds / 60))"

text \<open>
  \<open>analyzeSpeech\<close> after the remote call: \<open>response\<close> is what the call and
  \<open>JSON.parse\<close> produced, \<open>Inl\<close> when either threw or the answer had no text. The
  error is thrown again; a parsed result gets its \<open>wpm\<close> overwritten.
\<close>

definition analyzeSpeech ::
    "js_error + AnalysisResult \<Rightarrow> rat \<Rightarrow> jsstring \<Rightarrow> js_error + AnalysisResult" where
  "analyzeSpeech response durationSeconds language =
     (case response of
        Inl e \<Rightarrow> Inl e
      | Inr result \<Rightarrow>
          Inr (result\<lparr>wpm := Some (calculatedPace language (transcript result) durationSeconds)\<rparr>))"






section \<open>types.ts\<close>

datatype AppStep = ONBOARDING | SETUP | STAGE | ANALYSIS

datatype SessionMode = SPEECH | EXPRESS | COMEDY | DEBATE

datatype SpeechLevel = BEGINNER | ADVANCED | EXPERT

record SessionConfig =
  topic :: jsstring
  durationSeconds :: int
  language :: jsstring
  mode :: SessionMode
  level :: SpeechLevel
  prepTimeSeconds :: int

text \<open>
  The fields of a \<open>HistoryItem\<close> carry the prefix \<open>h_\<close>: a record field is a constant,
  and \<open>topic\<close>, \<open>mode\<close>, \<open>wpm\<close> and \<open>sentiment\<close> are taken.
\<close>

record HistoryItem =
  h_id :: string
  h_date :: string
  h_topic :: jsstring
  h_mode :: SessionMode
  h_score :: int
  h_wpm :: "int option"
  h_sentiment :: jsstring
  fullResult :: AnalysisResult

text \<open>A \<open>Blob\<close>: its bytes and its media type.\<close>

record Blob =
  bytes :: "8 word list"
  blob_type :: string


section \<open>services/historyService.ts\<close>

text \<open>
  The text stored under a key of \<open>localStorage\<close>, told apart by what \<open>JSON.parse\<close>
  makes of it: the empty string, the text \<open>JSON.stringify\<close> writes for an array of
  history items, a text that parses to a value that cannot be spread (a number, a
  boolean, null, an object), and a text on which \<open>JSON.parse\<close> throws.
\<close>

datatype stored_text = EmptyText | JsonArray "HistoryItem list" | JsonOther | Garbage

datatype js_value = Items "HistoryItem list" | NotIterable

text \<open>
  \<open>localStorage\<close>: its entries, and whether reading it or writing to it throws
  (storage disabled, quota exceeded).
\<close>

record localStorage =
  getItemThrows :: bool
  setItemThrows :: bool
  entries :: "string \<rightharpoonup> stored_text"

definition STORAGE_KEY :: string where
  "STORAGE_KEY = ''speakflow_history''"

definition getItem :: "localStorage \<Rightarrow> string \<Rightarrow> js_error + stored_text option" where
  "getItem ls key =
     (if getItemThrows ls then Inl (Thrown ''SecurityError'') else Inr (entries ls key))"

definition setItem :: "localStorage \<Rightarrow> string \<Rightarrow> stored_text \<Rightarrow> js_error + localStorage" where
  "setItem ls key v =
     (if setItemThrows ls then Inl (Thrown ''QuotaExceededError'')
      else Inr (ls\<lparr>entries := (entries ls)(key \<mapsto> v)\<rparr>))"

fun JSON_parse :: "stored_text \<Rightarrow> js_error + js_value" where
  "JSON_parse EmptyText = Inl (Thrown ''SyntaxError'')"
| "JSON_parse (JsonArray xs) = Inr (Items xs)"
| "JSON_parse JsonOther = Inr NotIterable"
| "JSON_parse Garbage = Inl (Thrown ''SyntaxError'')"

definition JSON_stringify :: "HistoryItem list \<Rightarrow> stored_text" where
  "JSON_stringify xs = JsonArray xs"

text \<open>The body of the \<open>try\<close> block of \<open>getHistory\<close>, then the function with its \<open>catch\<close>.\<close>

definition getHistory_try :: "localStorage \<Rightarrow> js_error + js_value" where
  "getHistory_try ls =
     (case getItem ls STORAGE_KEY of
        Inl e \<Rightarrow> Inl e
      | Inr None \<Rightarrow> Inr (Items [])
      | Inr (Some stored) \<Rightarrow> if stored = EmptyText then Inr (Items []) else JSON_parse stored)"

definition getHistory :: "localStorage \<Rightarrow> js_value" where
  "getHistory ls = (case getHistory_try ls of Inl e \<Rightarrow> Items [] | Inr v \<Rightarrow> v)"

text \<open>
  \<open>[item, ...history].slice(0, 20)\<close>: spreading a value that is not iterable throws a
  TypeError.
\<close>

definition saveHistoryItem_try :: "localStorage \<Rightarrow> HistoryItem \<Rightarrow> js_error + localStorage" where
  "saveHistoryItem_try ls item =
     (case getHistory ls of
        NotIterable \<Rightarrow> Inl (Thrown ''TypeError'')
      | Items history \<Rightarrow>
          setItem ls STORAGE_KEY (JSON_stringify (take 20 (item # history))))"

definition saveHistoryItem :: "localStorage \<Rightarrow> HistoryItem \<Rightarrow> localStorage" where
  "saveHistoryItem ls item = (case saveHistoryItem_try ls item of Inl e \<Rightarrow> ls | Inr ls' \<Rightarrow> ls')"


section \<open>App.tsx\<close>


text \<open>
  The state of the \<open>App\<close> component, with the two things outside it that its handlers
  touch: \<open>localStorage\<close> and the alerts shown to the user.
\<close>

record App =
  step :: AppStep
  sessionConfig :: SessionConfig
  analysisResult :: "AnalysisResult option"
  currentAudioBlob :: "Blob option"
  recordedDuration :: rat
  isAnalyzing :: bool
  progress :: rat
  activeTips :: "string list"
  currentTipIndex :: nat
  storage :: localStorage
  alerts :: "string list"

definition handleBackToSetup :: "App \<Rightarrow> App" where
  "handleBackToSetup app = app\<lparr>step := SETUP\<rparr>"

definition handleSessionStart :: "SessionConfig \<Rightarrow> App \<Rightarrow> App" where
  "handleSessionStart cfg app = app\<lparr>sessionConfig := cfg, step := STAGE\<rparr>"

text \<open>
  \<open>handleSessionFinish\<close> up to its \<open>await\<close>, and from the moment the awaited call
  settles. \<open>response\<close> is the outcome of the remote call, \<open>id_text\<close> and \<open>date_text\<close>
  are \<open>Date.now().toString()\<close> and \<open>new Date().toISOString()\<close> at that moment.
\<close>

definition handleSessionFinish_begin :: "Blob \<Rightarrow> rat \<Rightarrow> App \<Rightarrow> App" where
  "handleSessionFinish_begin audioBlob duration app =
     app\<lparr>isAnalyzing := True, currentAudioBlob := Some audioBlob, recordedDuration := duration\<rparr>"

definition handleSessionFinish_settle ::
    "js_error + AnalysisResult \<Rightarrow> rat \<Rightarrow> string \<Rightarrow> string \<Rightarrow> App \<Rightarrow> App" where
  "handleSessionFinish_settle response duration id_text date_text app =
     (case analyzeSpeech response duration (language (sessionConfig app)) of
        Inr result \<Rightarrow>
          (let historyItem = \<lparr>h_id = id_text, h_date = date_text,
                                h_topic = topic (sessionConfig app),
                                h_mode = mode (sessionConfig app),
                                h_score = overallScore result,
                                h_wpm = wpm result,
                                h_sentiment = sentiment result,
                                fullResult = result\<rparr>
           in app\<lparr>analysisResult := Some result,
                   storage := saveHistoryItem (storage app) historyItem,
                   isAnalyzing := False,
                   step := ANALYSIS\<rparr>)
      | Inl e \<Rightarrow>
          app\<lparr>alerts := alerts app @ [''Failed to analyze speech. Please try again.''],
               isAnalyzing := False,
               step := SETUP\<rparr>)"

definition handleSessionFinish ::
    "Blob \<Rightarrow> rat \<Rightarrow> js_error + AnalysisResult \<Rightarrow> string \<Rightarrow> string \<Rightarrow> App \<Rightarrow> App" where
  "handleSessionFinish audioBlob duration response id_text date_text app =
     handleSessionFinish_settle response duration id_text date_text
       (handleSessionFinish_begin audioBlob duration app)"

definition handleLoadHistory :: "HistoryItem \<Rightarrow> App \<Rightarrow> App" where
  "handleLoadHistory item app =
     app\<lparr>sessionConfig := \<lparr>topic = h_topic item, durationSeconds = 0,
                              language = js ''English'', mode = h_mode item,
                              level = BEGINNER, prepTimeSeconds = 0\<rparr>,
          analysisResult := Some (fullResult item),
          currentAudioBlob := None,
          recordedDuration := 0,
          step := ANALYSIS\<rparr>"

definition handleRestart :: "App \<Rightarrow> App" where
  "handleRestart app =
     app\<lparr>analysisResult := None, currentAudioBlob := None, recordedDuration := 0, step := SETUP\<rparr>"





text \<open>
  The simulated progress: set to 0 when \<open>isAnalyzing\<close> becomes true, then updated every
  100 ms by \<open>progress_tick\<close>. JavaScript numbers are taken as exact rationals.
\<close>

definition totalTime :: rat where
  "totalTime = 45000"

definition tick :: rat where
  "tick = 100"

definition progress_tick :: "rat \<Rightarrow> rat" where
  "progress_tick prev = (if prev \<ge> 99 then 99 else prev + 100 / (totalTime / tick))"

definition progress_start :: "App \<Rightarrow> App" where
  "progress_start app = (if isAnalyzing app then app\<lparr>progress := 0\<rparr> else app)"

definition progress_interval :: "App \<Rightarrow> App" where
  "progress_interval app =
     (if isAnalyzing app then app\<lparr>progress := progress_tick (progress app)\<rparr> else app)"

text \<open>The percentage drawn on the screen: \<open>Math.floor(progress)\<close>.\<close>

definition displayed_progress :: "App \<Rightarrow> int" where
  "displayed_progress app = \<lfloor>progress app\<rfloor>"


section \<open>components/Stage.tsx\<close>

datatype TrackState = live | ended

record MediaStreamTrack =
  kind :: string
  readyState :: TrackState

datatype RecorderState = inactive | recording | paused

datatype ContextState = running | closed

text \<open>
  The state of a mounted \<open>Stage\<close>: its React state, its refs, and the browser objects
  behind them.
  \<^item> \<open>tracks\<close> are the tracks of the stream that \<open>getUserMedia\<close> handed out, and
    \<open>streamRef\<close> tells whether \<open>streamRef.current\<close> points to that stream;
  \<^item> \<open>scheduledFrame\<close> is the animation frame request that the browser still holds for
    \<open>updateVolume\<close>, \<open>lastFrameId\<close> the last handle \<open>requestAnimationFrame\<close> returned;
  \<^item> \<open>stopEventPending\<close>: \<open>recorder.stop()\<close> was called and the \<open>stop\<close> event is not yet
    dispatched;
  \<^item> \<open>onstop_timeLeft\<close> is the \<open>timeLeft\<close> that the handler \<open>recorder.onstop\<close> reads. The
    handler is created inside the effect with the dependency list \<open>[]\<close>, which runs once,
    for the first render: the \<open>timeLeft\<close> in its scope is the constant of that render;
  \<^item> \<open>finished\<close> lists the calls of \<open>onFinish\<close>, \<open>stage_alerts\<close> the alerts shown.
\<close>

record Stage =
  config :: SessionConfig
  isPrep :: bool
  prepTimeLeft :: int
  timeLeft :: int
  isRecording :: bool
  isReady :: bool
  volume :: rat
  isMounted :: bool
  setupPending :: bool
  tracks :: "MediaStreamTrack list"
  streamRef :: bool
  audioContextRef :: "ContextState option"
  analyserRef :: bool
  animationFrameRef :: "nat option"
  scheduledFrame :: "nat option"
  lastFrameId :: nat
  mediaRecorderRef :: "RecorderState option"
  mimeType :: string
  chunksRef :: "Blob list"
  startTimeRef :: int
  stopEventPending :: bool
  onstop_timeLeft :: int
  finished :: "(Blob \<times> rat) list"
  stage_alerts :: "string list"

text \<open>The first render: \<open>useState\<close> and \<open>useRef\<close> with their initial values.\<close>

definition mount :: "SessionConfig \<Rightarrow> Stage" where
  "mount cfg =
     \<lparr>config = cfg, isPrep = (prepTimeSeconds cfg > 0), prepTimeLeft = prepTimeSeconds cfg,
      timeLeft = durationSeconds cfg, isRecording = False, isReady = False, volume = 0,
      isMounted = True, setupPending = True, tracks = [], streamRef = False,
      audioContextRef = None, analyserRef = False, animationFrameRef = None,
      scheduledFrame = None, lastFrameId = 0, mediaRecorderRef = None, mimeType = [],
      chunksRef = [], startTimeRef = 0, stopEventPending = False,
      onstop_timeLeft = durationSeconds cfg, finished = [], stage_alerts = []\<rparr>"

definition prep_interval :: "Stage \<Rightarrow> Stage" where
  "prep_interval st =
     (if isPrep st \<and> prepTimeLeft st > 0 then st\<lparr>prepTimeLeft := prepTimeLeft st - 1\<rparr> else st)"

definition prep_effect :: "Stage \<Rightarrow> Stage" where
  "prep_effect st = (if isPrep st \<and> prepTimeLeft st = 0 then st\<lparr>isPrep := False\<rparr> else st)"

definition skipPrep :: "Stage \<Rightarrow> Stage" where
  "skipPrep st = st\<lparr>isPrep := False\<rparr>"

definition recording_interval :: "Stage \<Rightarrow> Stage" where
  "recording_interval st =
     (if \<not> isPrep st \<and> isRecording st \<and> timeLeft st > 0
      then st\<lparr>timeLeft := max 0 (timeLeft st - 1)\<rparr> else st)"

definition mime_types :: "string list" where
  "mime_types =
     [''audio/webm;codecs=opus'', ''audio/webm'', ''audio/mp4'', ''audio/ogg;codecs=opus'', []]"

definition getSupportedMimeType :: "(string \<Rightarrow> bool) \<Rightarrow> string" where
  "getSupportedMimeType isTypeSupported =
     (case List.find (\<lambda>t. t = [] \<or> isTypeSupported t) mime_types of Some t \<Rightarrow> t | None \<Rightarrow> [])"

definition stop_track :: "MediaStreamTrack \<Rightarrow> MediaStreamTrack" where
  "stop_track t = t\<lparr>readyState := ended\<rparr>"

text \<open>
  \<open>updateVolume\<close>: \<open>dataArray\<close> is what \<open>getByteFrequencyData\<close> wrote, one byte for each
  of the \<open>fftSize / 2\<close> bins. It ends by requesting the next animation frame.
\<close>

definition updateVolume :: "8 word list \<Rightarrow> Stage \<Rightarrow> Stage" where
  "updateVolume dataArray st =
     (if \<not> analyserRef st then st
      else
        let average = of_nat (sum_list (map unat dataArray)) / of_nat (length dataArray);
            handle = lastFrameId st + 1
        in st\<lparr>volume := min 100 (average * (5 / 2)),
               lastFrameId := handle,
               scheduledFrame := Some handle,
               animationFrameRef := Some handle\<rparr>)"

text \<open>The browser runs the requested frame, if it still holds one.\<close>

definition animation_frame :: "8 word list \<Rightarrow> Stage \<Rightarrow> Stage" where
  "animation_frame dataArray st =
     (case scheduledFrame st of
        None \<Rightarrow> st
      | Some h \<Rightarrow> updateVolume dataArray (st\<lparr>scheduledFrame := None\<rparr>))"

definition cancelAnimationFrame :: "nat \<Rightarrow> Stage \<Rightarrow> Stage" where
  "cancelAnimationFrame h st =
     (if scheduledFrame st = Some h then st\<lparr>scheduledFrame := None\<rparr> else st)"

text \<open>
  How \<open>setupStream\<close> goes once the promise of \<open>getUserMedia\<close> settles: the promise
  rejects; or it hands out a stream and then the construction of the audio graph throws,
  or the constructor of \<open>MediaRecorder\<close> throws, or nothing throws.
\<close>

datatype setup_outcome =
    GetUserMediaFails
  | AudioContextFails "MediaStreamTrack list"
  | MediaRecorderFails "MediaStreamTrack list"
  | SetupOk "MediaStreamTrack list"

definition permission_alert :: "Stage \<Rightarrow> Stage" where
  "permission_alert st =
     (if isMounted st
      then st\<lparr>stage_alerts := stage_alerts st @ [''Microphone and Camera permissions are required.'']\<rparr>
      else st)"

definition acquire :: "MediaStreamTrack list \<Rightarrow> Stage \<Rightarrow> Stage" where
  "acquire ts st = st\<lparr>tracks := ts, streamRef := True\<rparr>"

definition build_audio :: "8 word list \<Rightarrow> Stage \<Rightarrow> Stage" where
  "build_audio dataArray st =
     updateVolume dataArray (st\<lparr>audioContextRef := Some running, analyserRef := True\<rparr>)"

definition setupStream ::
    "setup_outcome \<Rightarrow> (string \<Rightarrow> bool) \<Rightarrow> 8 word list \<Rightarrow> Stage \<Rightarrow> Stage" where
  "setupStream outcome isTypeSupported dataArray st =
     (case outcome of
        GetUserMediaFails \<Rightarrow> permission_alert st
      | AudioContextFails ts \<Rightarrow>
          if \<not> isMounted st then st\<lparr>tracks := map stop_track ts\<rparr>
          else permission_alert (acquire ts st)
      | MediaRecorderFails ts \<Rightarrow>
          if \<not> isMounted st then st\<lparr>tracks := map stop_track ts\<rparr>
          else permission_alert (build_audio dataArray (acquire ts st))
      | SetupOk ts \<Rightarrow>
          if \<not> isMounted st then st\<lparr>tracks := map stop_track ts\<rparr>
          else (build_audio dataArray (acquire ts st))
                 \<lparr>mediaRecorderRef := Some inactive,
                  mimeType := getSupportedMimeType isTypeSupported,
                  isReady := True\<rparr>)"

text \<open>The handler \<open>recorder.ondataavailable\<close>.\<close>

definition ondataavailable :: "Blob \<Rightarrow> Stage \<Rightarrow> Stage" where
  "ondataavailable e st =
     (if length (bytes e) > 0 then st\<lparr>chunksRef := chunksRef st @ [e]\<rparr> else st)"

text \<open>
  \<open>startRecording\<close>: \<open>now\<close> is \<open>Date.now()\<close>, and \<open>starts\<close> tells whether
  \<open>recorder.start(1000)\<close> returns rather than throws.
\<close>

definition startRecording :: "int \<Rightarrow> bool \<Rightarrow> Stage \<Rightarrow> Stage" where
  "startRecording now starts st =
     (if mediaRecorderRef st \<noteq> Some inactive then st
      else
        let st1 = st\<lparr>chunksRef := [], startTimeRef := now\<rparr>
        in if starts then st1\<lparr>mediaRecorderRef := Some recording, isRecording := True\<rparr>
           else st1\<lparr>stage_alerts := stage_alerts st1 @
                       [''Could not start recording. Please refresh and try again.'']\<rparr>)"

definition stopRecording :: "Stage \<Rightarrow> Stage" where
  "stopRecording st =
     (if mediaRecorderRef st = Some recording
      then st\<lparr>mediaRecorderRef := Some inactive, stopEventPending := True, isRecording := False\<rparr>
      else st)"

text \<open>The effect that stops the recording when the countdown reaches 0.\<close>

definition auto_stop :: "Stage \<Rightarrow> Stage" where
  "auto_stop st =
     (if \<not> isPrep st \<and> timeLeft st = 0 \<and> isRecording st then stopRecording st else st)"

text \<open>The constructor \<open>new Blob(chunks, { type })\<close>.\<close>

definition new_Blob :: "Blob list \<Rightarrow> string \<Rightarrow> Blob" where
  "new_Blob parts ty = \<lparr>bytes = concat (map bytes parts), blob_type = ty\<rparr>"

text \<open>The handler \<open>recorder.onstop\<close>, with \<open>now\<close> for \<open>Date.now()\<close>.\<close>

definition finalDuration :: "int \<Rightarrow> Stage \<Rightarrow> rat" where
  "finalDuration now st =
     (let duration = of_int (now - startTimeRef st) / 1000
      in if duration > 0 then duration
         else of_int (durationSeconds (config st) - onstop_timeLeft st))"

definition onstop :: "int \<Rightarrow> Stage \<Rightarrow> Stage" where
  "onstop now st =
     (let blob = new_Blob (chunksRef st) (if mimeType st \<noteq> [] then mimeType st else ''audio/webm'');
          st1 = (if streamRef st then st\<lparr>tracks := map stop_track (tracks st)\<rparr> else st)
      in st1\<lparr>finished := finished st1 @ [(blob, finalDuration now st)]\<rparr>)"

definition addTime :: "Stage \<Rightarrow> Stage" where
  "addTime st = st\<lparr>timeLeft := timeLeft st + 15\<rparr>"

text \<open>The cleanup of the setup effect, run when the component unmounts.\<close>

definition cleanup :: "Stage \<Rightarrow> Stage" where
  "cleanup st =
     (let st1 = st\<lparr>isMounted := False\<rparr>;
          st2 = (if streamRef st1 then st1\<lparr>tracks := map stop_track (tracks st1)\<rparr> else st1);
          st3 = (case audioContextRef st2 of
                   None \<Rightarrow> st2
                 | Some c \<Rightarrow> st2\<lparr>audioContextRef := Some closed\<rparr>)
      in case animationFrameRef st3 of
           None \<Rightarrow> st3
         | Some h \<Rightarrow> if h \<noteq> 0 then cancelAnimationFrame h st3 else st3)"

text \<open>
  What can happen to a mounted \<open>Stage\<close>. The buttons act only where the component
  renders them enabled: "I'm Ready" in the preparation view; the record button outside
  it, while not recording and once ready; the stop button and "+15s" while recording.
  Timers and buttons are gone after the unmount; the promise, the recorder's event and
  a frame still requested are not. After an update of the state, React runs the
  effects whose dependencies changed.
\<close>

datatype StageEvent =
    SetupSettles setup_outcome "string list" "8 word list"
  | AnimationFrame "8 word list"
  | PrepInterval
  | ClickSkipPrep
  | ClickRecord int bool
  | DataAvailable Blob
  | RecordingInterval
  | ClickStop
  | StopEvent int
  | ClickAddTime
  | Unmount

definition effects :: "Stage \<Rightarrow> Stage" where
  "effects st = auto_stop (prep_effect st)"

text \<open>The button "+15s": rendered outside the preparation view, disabled unless recording.\<close>

definition click_addTime :: "Stage \<Rightarrow> Stage" where
  "click_addTime st = (if \<not> isPrep st \<and> isRecording st then addTime st else st)"

fun stage_step :: "StageEvent \<Rightarrow> Stage \<Rightarrow> Stage" where
  "stage_step (SetupSettles outcome supported dataArray) st =
     (if setupPending st
      then setupStream outcome (\<lambda>t. t \<in> set supported) dataArray (st\<lparr>setupPending := False\<rparr>)
      else st)"
| "stage_step (AnimationFrame dataArray) st = animation_frame dataArray st"
| "stage_step PrepInterval st = (if isMounted st then effects (prep_interval st) else st)"
| "stage_step ClickSkipPrep st = (if isMounted st \<and> isPrep st then effects (skipPrep st) else st)"
| "stage_step (ClickRecord now starts) st =
     (if isMounted st \<and> \<not> isPrep st \<and> \<not> isRecording st \<and> isReady st
      then effects (startRecording now starts st) else st)"
| "stage_step (DataAvailable e) st =
     (if mediaRecorderRef st = Some recording \<or> stopEventPending st
      then ondataavailable e st else st)"
| "stage_step RecordingInterval st =
     (if isMounted st then effects (recording_interval st) else st)"
| "stage_step ClickStop st =
     (if isMounted st \<and> \<not> isPrep st \<and> isRecording st then effects (stopRecording st) else st)"
| "stage_step (StopEvent now) st =
     (if stopEventPending st then onstop now (st\<lparr>stopEventPending := False\<rparr>) else st)"
| "stage_step ClickAddTime st = (if isMounted st then effects (click_addTime st) else st)"
| "stage_step Unmount st = (if isMounted st then cleanup st else st)"

definition run :: "StageEvent list \<Rightarrow> Stage \<Rightarrow> Stage" where
  "run es st = foldl (\<lambda>s e. stage_step e s) st es"

text \<open>The resources of the capture session are released.\<close>

definition all_tracks_stopped :: "Stage \<Rightarrow> bool" where
  "all_tracks_stopped st \<longleftrightarrow> list_all (\<lambda>t. readyState t = ended) (tracks st)"



text \<open>
  What every state of a \<open>Stage\<close> satisfies: tracks that are not stopped belong to the
  stream in \<open>streamRef\<close>, which is set once \<open>setupStream\<close> is past \<open>getUserMedia\<close>; a
  recorder exists only when there is a stream; a frame that the
  browser still holds is the one in \<open>animationFrameRef\<close>, and its handle is not 0; and
  \<open>recorder.onstop\<close> reads the \<open>timeLeft\<close> of the first render.
\<close>

definition stage_inv :: "Stage \<Rightarrow> bool" where
  "stage_inv st \<longleftrightarrow>
     (streamRef st \<or> all_tracks_stopped st) \<and>
     (\<not> setupPending st \<or> \<not> streamRef st) \<and>
     (mediaRecorderRef st = None \<or> streamRef st) \<and>
     (\<not> stopEventPending st \<or> streamRef st) \<and>
     (scheduledFrame st = None \<or>
        (scheduledFrame st = animationFrameRef st \<and> scheduledFrame st \<noteq> Some 0)) \<and>
     onstop_timeLeft st = durationSeconds (config st)"


section \<open>Example inputs\<close>

definition latin_result :: AnalysisResult where
  "latin_result = \<lparr>overallScore = 70, transcript = Some (js ''the quick brown fox jumps''),
                    wpm = Some 999, sentiment = js ''calm''\<rparr>"




definition example_item :: "nat \<Rightarrow> HistoryItem" where
  "example_item n =
     \<lparr>h_id = replicate n CHR ''1'', h_date = ''2024-05-01T10:00:00.000Z'',
      h_topic = js ''Explain a recent challenge you overcame.'', h_mode = SPEECH,
      h_score = int n, h_wpm = Some 120, h_sentiment = js ''calm'',
      fullResult = latin_result\<rparr>"

definition empty_storage :: localStorage where
  "empty_storage = \<lparr>getItemThrows = False, setItemThrows = False, entries = Map.empty\<rparr>"

definition blocked_storage :: localStorage where
  "blocked_storage = \<lparr>getItemThrows = True, setItemThrows = True, entries = Map.empty\<rparr>"


text \<open>The \<open>App\<close> on the stage, nothing analysed yet, and a recording of three bytes.\<close>

definition stage_app :: App where
  "stage_app =
     \<lparr>step = STAGE,
      sessionConfig = \<lparr>topic = js ''Explain a recent challenge you overcame.'',
                       durationSeconds = 60, language = js ''English'', mode = SPEECH,
                       level = BEGINNER, prepTimeSeconds = 0\<rparr>,
      analysisResult = None, currentAudioBlob = None, recordedDuration = 0,
      isAnalyzing = False, progress = 0, activeTips = [], currentTipIndex = 0,
      storage = empty_storage, alerts = []\<rparr>"

definition example_blob :: Blob where
  "example_blob = \<lparr>bytes = [0x1A, 0x45, 0xDF], blob_type = ''audio/webm''\<rparr>"


text \<open>A session of 60 seconds without preparation, and the tracks of a microphone and a camera.\<close>

definition example_config :: SessionConfig where
  "example_config =
     \<lparr>topic = js ''Explain a recent challenge you overcame.'', durationSeconds = 60,
      language = js ''English'', mode = SPEECH, level = BEGINNER, prepTimeSeconds = 0\<rparr>"

definition example_tracks :: "MediaStreamTrack list" where
  "example_tracks = [\<lparr>kind = ''audio'', readyState = live\<rparr>, \<lparr>kind = ''video'', readyState = live\<rparr>]"

text \<open>
  The stage is set up, with every one of the 128 frequency bins at 32, and the
  recording started at the time 1000000 (in ms).
\<close>

definition recording_stage :: Stage where
  "recording_stage =
     run [SetupSettles (SetupOk example_tracks) [''audio/webm''] (replicate 128 0x20),
          ClickRecord 1000000 True]
       (mount example_config)"


section \<open>The pace: white-space separated tokens\<close>










section \<open>The pace that \<open>analyzeSpeech\<close> returns\<close>












section \<open>The history store\<close>

lemma saveHistoryItem_working:
  assumes "\<not> setItemThrows ls" and "getHistory ls = Items hist"
  shows "saveHistoryItem ls item =
           ls\<lparr>entries := (entries ls)(STORAGE_KEY \<mapsto> JsonArray (take 20 (item # hist)))\<rparr>"
  using assms by (simp add: saveHistoryItem_def saveHistoryItem_try_def setItem_def JSON_stringify_def)

lemma getHistory_stored:
  assumes "\<not> getItemThrows ls" and "entries ls STORAGE_KEY = Some (JsonArray xs)"
  shows "getHistory ls = Items xs"
  using assms by (simp add: getHistory_def getHistory_try_def getItem_def)

lemma getHistory_after_save:
  assumes "\<not> getItemThrows ls" and "\<not> setItemThrows ls" and "getHistory ls = Items hist"
  shows "getHistory (saveHistoryItem ls item) = Items (take 20 (item # hist))"
    and "\<not> getItemThrows (saveHistoryItem ls item)"
    and "\<not> setItemThrows (saveHistoryItem ls item)"
  using assms by (simp_all add: saveHistoryItem_working getHistory_stored)

lemma getHistory_after_saves:
  assumes "\<not> getItemThrows ls" and "\<not> setItemThrows ls" and "getHistory ls = Items hist"
  shows "getHistory (foldl saveHistoryItem ls xs)
           = Items (if xs = [] then hist else take 20 (rev xs @ hist))"
  using assms
proof (induction xs arbitrary: ls hist)
  case Nil
  then show ?case by simp
next
  case (Cons x xs)
  have "getHistory (foldl saveHistoryItem (saveHistoryItem ls x) xs) =
          Items (if xs = [] then take 20 (x # hist) else take 20 (rev xs @ take 20 (x # hist)))"
    using Cons.IH [OF getHistory_after_save(2) getHistory_after_save(3) getHistory_after_save(1)]
      Cons.prems by blast
  moreover have "take 20 (rev xs @ take 20 (x # hist)) = take 20 (rev xs @ x # hist)"
    by (simp add: take_Cons' min_def)
  ultimately show ?case by simp
qed

text \<open>
  C4: on a storage that works, \<open>saveHistoryItem\<close> puts the new item in front of the
  stored log and keeps the first 20; whatever the log was, after 25 calls in a row the
  log holds the last 20 items saved, the most recent first.
\<close>

theorem saveHistoryItem_keeps_latest_20:
  assumes "\<not> getItemThrows ls" and "\<not> setItemThrows ls"
      and "getHistory ls = Items hist" and "length xs = 25"
  shows "getHistory (saveHistoryItem ls item) = Items (take 20 (item # hist)) \<and>
         getHistory (foldl saveHistoryItem ls xs) = Items (rev (drop 5 xs)) \<and>
         length (rev (drop 5 xs)) = 20"
proof -
  have "take 20 (rev xs @ hist) = take 20 (rev xs)" using assms(4) by simp
  also have "\<dots> = rev (drop 5 xs)" using assms(4) by (simp add: take_rev)
  finally show ?thesis
    using getHistory_after_save(1) [OF assms(1-3)] getHistory_after_saves [OF assms(1-3), of xs]
      assms(4)
    by auto
qed

theorem saveHistoryItem_keeps_latest_20_witness:
  "getHistory (foldl saveHistoryItem empty_storage (map example_item [0..<25]))
     = Items (rev (drop 5 (map example_item [0..<25]))) \<and>
   getHistory (saveHistoryItem empty_storage (example_item 7)) = Items [example_item 7]"
proof -
  have a: "\<not> getItemThrows empty_storage" "\<not> setItemThrows empty_storage"
    by (simp_all add: empty_storage_def)
  have b: "getHistory empty_storage = Items []"
    by (simp add: empty_storage_def getHistory_def getHistory_try_def getItem_def)
  have c: "length (map example_item [0..<25]) = 25" by simp
  show ?thesis
    using saveHistoryItem_keeps_latest_20 [OF a b c, of "example_item 7"] by simp
qed

text \<open>
  C9, as stated, fails: with the key absent from a storage that works,
  \<open>saveHistoryItem\<close> is not a no-op, it stores the item.
\<close>

theorem saveHistoryItem_absent_key_counterexample:
  "entries empty_storage STORAGE_KEY = None \<and>
   saveHistoryItem empty_storage (example_item 1) \<noteq> empty_storage"
proof -
  have "entries (saveHistoryItem empty_storage (example_item 1)) STORAGE_KEY
          = Some (JsonArray [example_item 1])"
    by (simp add: saveHistoryItem_def saveHistoryItem_try_def setItem_def JSON_stringify_def
        getHistory_def getHistory_try_def getItem_def empty_storage_def)
  moreover have "entries empty_storage STORAGE_KEY = None" by (simp add: empty_storage_def)
  ultimately show ?thesis by auto
qed

text \<open>
  C9, amended: when the key is absent, when the stored text cannot be parsed and when
  reading the storage throws, \<open>getHistory\<close> returns the empty list, and
  \<open>saveHistoryItem\<close> leaves the storage as it is if the write throws and otherwise
  stores the log of the one new item. Whatever the \<open>try\<close> block of either function
  throws is caught: \<open>getHistory\<close> then returns the empty list and \<open>saveHistoryItem\<close>
  changes nothing.
\<close>

theorem history_degrades:
  assumes "getItemThrows ls \<or> entries ls STORAGE_KEY = None \<or> entries ls STORAGE_KEY = Some Garbage"
  shows "getHistory ls = Items [] \<and>
         (setItemThrows ls \<longrightarrow> saveHistoryItem ls item = ls) \<and>
         (\<not> setItemThrows ls \<longrightarrow>
            saveHistoryItem ls item = ls\<lparr>entries := (entries ls)(STORAGE_KEY \<mapsto> JsonArray [item])\<rparr>) \<and>
         (\<forall>e. getHistory_try ls' = Inl e \<longrightarrow> getHistory ls' = Items []) \<and>
         (\<forall>e. saveHistoryItem_try ls' item = Inl e \<longrightarrow> saveHistoryItem ls' item = ls')"
proof -
  have g: "getHistory ls = Items []"
    using assms by (auto simp: getHistory_def getHistory_try_def getItem_def)
  show ?thesis
    using g by (auto simp: saveHistoryItem_def saveHistoryItem_try_def setItem_def
        JSON_stringify_def getHistory_def)
qed

theorem history_degrades_witness:
  "getHistory blocked_storage = Items [] \<and>
   saveHistoryItem blocked_storage (example_item 1) = blocked_storage \<and>
   saveHistoryItem empty_storage (example_item 1)
     = empty_storage\<lparr>entries := (entries empty_storage)(STORAGE_KEY \<mapsto> JsonArray [example_item 1])\<rparr>"
proof -
  have a: "getItemThrows blocked_storage \<or> entries blocked_storage STORAGE_KEY = None \<or>
           entries blocked_storage STORAGE_KEY = Some Garbage"
    by (simp add: blocked_storage_def)
  have b: "getItemThrows empty_storage \<or> entries empty_storage STORAGE_KEY = None \<or>
           entries empty_storage STORAGE_KEY = Some Garbage"
    by (simp add: empty_storage_def)
  have c: "setItemThrows blocked_storage" "\<not> setItemThrows empty_storage"
    by (simp_all add: blocked_storage_def empty_storage_def)
  show ?thesis
    using history_degrades [OF a, of "example_item 1"] history_degrades [OF b, of "example_item 1"] c
    by simp
qed


section \<open>The session: a failed analysis, the progress, the tips\<close>

text \<open>
  C1: when the call of the analyzer fails, \<open>handleSessionFinish\<close> leaves the step at
  \<open>SETUP\<close>, \<open>isAnalyzing\<close> false and the result as it was (none, on the stage). The claim
  that the recording is then discarded does not hold of the code: \<open>currentAudioBlob\<close> still
  holds it, while \<open>handleRestart\<close>, the other way back to \<open>SETUP\<close>, clears it.
\<close>

theorem handleSessionFinish_failure_keeps_blob:
  "step (handleSessionFinish audioBlob duration (Inl e) id_text date_text app) = SETUP \<and>
   isAnalyzing (handleSessionFinish audioBlob duration (Inl e) id_text date_text app) = False \<and>
   analysisResult (handleSessionFinish audioBlob duration (Inl e) id_text date_text app)
     = analysisResult app \<and>
   currentAudioBlob (handleSessionFinish audioBlob duration (Inl e) id_text date_text app)
     = Some audioBlob \<and>
   currentAudioBlob (handleRestart app) = None"
  by (simp add: handleSessionFinish_def handleSessionFinish_settle_def
      handleSessionFinish_begin_def analyzeSpeech_def handleRestart_def)

lemma progress_tick_below: "prev < 99 \<Longrightarrow> progress_tick prev = prev + 2 / 9"
  by (simp add: progress_tick_def totalTime_def tick_def)

lemma progress_linear: "n \<le> 446 \<Longrightarrow> (progress_tick ^^ n) 0 = of_nat n * (2 / 9)"
proof (induction n)
  case 0
  show ?case by simp
next
  case (Suc n)
  then have eq: "(progress_tick ^^ n) 0 = of_nat n * (2 / 9)" by simp
  have "n \<le> 445" using Suc.prems by simp
  then have "(of_nat n :: rat) \<le> 445" by (metis of_nat_le_iff of_nat_numeral)
  then have "(of_nat n :: rat) * (2 / 9) < 99" by simp
  then show ?case using eq by (simp add: progress_tick_below algebra_simps)
qed

lemma progress_interval_funpow:
  "isAnalyzing app \<Longrightarrow>
     progress ((progress_interval ^^ n) app) = (progress_tick ^^ n) (progress app) \<and>
     isAnalyzing ((progress_interval ^^ n) app)"
  by (induction n) (simp_all add: progress_interval_def)

text \<open>
  C2: the claim that the simulated progress never decreases and never exceeds 99 does
  not hold of the code. The callback tests \<open>prev >= 99\<close> before it adds the increment of
  \<open>100 / 450\<close>: after 446 ticks the progress is \<open>892 / 9\<close>, above 99, and the next tick
  takes it down to 99. (In floating point the values differ from these by rounding
  errors far below the distance to 99.)
\<close>

theorem progress_overshoots_99:
  "progress ((progress_interval ^^ 446)
      (progress_start (handleSessionFinish_begin example_blob 12 stage_app))) = 892 / 9 \<and>
   (99::rat) < 892 / 9 \<and>
   progress ((progress_interval ^^ 447)
      (progress_start (handleSessionFinish_begin example_blob 12 stage_app))) = 99"
proof -
  let ?app = "progress_start (handleSessionFinish_begin example_blob 12 stage_app)"
  have an: "isAnalyzing ?app" and p0: "progress ?app = 0"
    by (simp_all add: progress_start_def handleSessionFinish_begin_def)
  have a: "(progress_tick ^^ 446) 0 = 892 / 9"
    using progress_linear [of 446] by simp
  have "(progress_tick ^^ 447) 0 = progress_tick ((progress_tick ^^ 446) 0)"
    by (metis funpow.simps(2) o_apply eval_nat_numeral(3) semiring_norm(5) numeral_plus_one Suc_eq_plus1)
  then have b: "(progress_tick ^^ 447) 0 = 99"
    by (simp add: a progress_tick_def)
  show ?thesis
    using progress_interval_funpow [OF an, of 446] progress_interval_funpow [OF an, of 447]
    by (simp add: p0 a b)
qed

text \<open>
  The percentage that is drawn, the floor of the progress, never decreases under the
  tick and stays at most 99.
\<close>

lemma displayed_progress_holds:
  assumes "isAnalyzing app" and "0 \<le> progress app" and "progress app < 100"
  shows "displayed_progress app \<le> displayed_progress (progress_interval app) \<and>
         displayed_progress (progress_interval app) \<le> 99 \<and>
         0 \<le> progress (progress_interval app) \<and> progress (progress_interval app) < 100"
proof (cases "progress app \<ge> 99")
  case True
  then have "\<lfloor>progress app\<rfloor> = 99" using assms(3) by linarith
  then show ?thesis using True assms(1)
    by (simp add: displayed_progress_def progress_interval_def progress_tick_def)
next
  case False
  then have t: "progress_tick (progress app) = progress app + 2 / 9"
    by (simp add: progress_tick_below)
  have "\<lfloor>progress app\<rfloor> \<le> \<lfloor>progress app + 2 / 9\<rfloor>" by (rule floor_mono) simp
  moreover have "\<lfloor>progress app + 2 / 9\<rfloor> \<le> 99" using False by linarith
  ultimately show ?thesis using assms False t
    by (simp add: displayed_progress_def progress_interval_def)
qed









section \<open>The stage: what every state satisfies\<close>

lemma stopped_map_stop_track: "list_all (\<lambda>t. readyState t = ended) (map stop_track ts)"
  by (simp add: list_all_iff stop_track_def)

lemma inv_mount: "stage_inv (mount cfg)"
  by (simp add: stage_inv_def mount_def all_tracks_stopped_def)

lemma inv_updateVolume: "stage_inv st \<Longrightarrow> stage_inv (updateVolume d st)"
  by (simp add: stage_inv_def updateVolume_def all_tracks_stopped_def Let_def)

lemma inv_permission_alert: "stage_inv st \<Longrightarrow> stage_inv (permission_alert st)"
  by (simp add: stage_inv_def permission_alert_def all_tracks_stopped_def)

lemma inv_acquire: "stage_inv st \<Longrightarrow> \<not> setupPending st \<Longrightarrow> stage_inv (acquire ts st)"
  by (simp add: stage_inv_def acquire_def all_tracks_stopped_def)

lemma inv_build_audio: "stage_inv st \<Longrightarrow> stage_inv (build_audio d st)"
  unfolding build_audio_def
  by (rule inv_updateVolume) (simp add: stage_inv_def all_tracks_stopped_def)

lemma streamRef_build_audio: "streamRef (build_audio d (acquire ts st))"
  by (simp add: build_audio_def updateVolume_def acquire_def Let_def)

lemma inv_late_tracks:
  "stage_inv st \<Longrightarrow> \<not> streamRef st \<Longrightarrow> stage_inv (st\<lparr>tracks := map stop_track ts\<rparr>)"
  by (simp add: stage_inv_def all_tracks_stopped_def stopped_map_stop_track)


lemma inv_setupStream:
  assumes "stage_inv st" and "\<not> streamRef st" and "\<not> setupPending st"
  shows "stage_inv (setupStream outcome supp d st)"
proof (cases outcome)
  case GetUserMediaFails
  then show ?thesis using assms by (simp add: setupStream_def inv_permission_alert)
next
  case (AudioContextFails ts)
  then show ?thesis
    using assms by (simp add: setupStream_def inv_permission_alert inv_acquire inv_late_tracks)
next
  case (MediaRecorderFails ts)
  then show ?thesis
    using assms
    by (simp add: setupStream_def inv_permission_alert inv_acquire inv_build_audio inv_late_tracks)
next
  case (SetupOk ts)
  have "stage_inv (build_audio d (acquire ts st))"
    using assms(1,3) by (simp add: inv_acquire inv_build_audio)
  then have "stage_inv ((build_audio d (acquire ts st))
                 \<lparr>mediaRecorderRef := Some inactive, mimeType := getSupportedMimeType supp,
                  isReady := True\<rparr>)"
    using streamRef_build_audio [of d ts st] by (simp add: stage_inv_def all_tracks_stopped_def)
  then show ?thesis
    using SetupOk assms by (simp add: setupStream_def inv_late_tracks)
qed

lemma inv_stopRecording: "stage_inv st \<Longrightarrow> stage_inv (stopRecording st)"
  by (auto simp: stage_inv_def stopRecording_def all_tracks_stopped_def)

lemma inv_auto_stop: "stage_inv st \<Longrightarrow> stage_inv (auto_stop st)"
  by (simp add: auto_stop_def inv_stopRecording)

lemma inv_prep_effect: "stage_inv st \<Longrightarrow> stage_inv (prep_effect st)"
  by (simp add: stage_inv_def prep_effect_def all_tracks_stopped_def)

lemma inv_effects: "stage_inv st \<Longrightarrow> stage_inv (effects st)"
  by (simp add: effects_def inv_auto_stop inv_prep_effect)

lemma inv_prep_interval: "stage_inv st \<Longrightarrow> stage_inv (prep_interval st)"
  by (simp add: stage_inv_def prep_interval_def all_tracks_stopped_def)

lemma inv_skipPrep: "stage_inv st \<Longrightarrow> stage_inv (skipPrep st)"
  by (simp add: stage_inv_def skipPrep_def all_tracks_stopped_def)

lemma inv_recording_interval: "stage_inv st \<Longrightarrow> stage_inv (recording_interval st)"
  by (simp add: stage_inv_def recording_interval_def all_tracks_stopped_def)

lemma inv_startRecording: "stage_inv st \<Longrightarrow> stage_inv (startRecording now starts st)"
  by (auto simp: stage_inv_def startRecording_def all_tracks_stopped_def Let_def)

lemma inv_ondataavailable: "stage_inv st \<Longrightarrow> stage_inv (ondataavailable e st)"
  by (simp add: stage_inv_def ondataavailable_def all_tracks_stopped_def)

lemma inv_click_addTime: "stage_inv st \<Longrightarrow> stage_inv (click_addTime st)"
  by (simp add: stage_inv_def click_addTime_def addTime_def all_tracks_stopped_def)

lemma inv_animation_frame: "stage_inv st \<Longrightarrow> stage_inv (animation_frame d st)"
proof (cases "scheduledFrame st")
  case None
  then show "stage_inv st \<Longrightarrow> ?thesis" by (simp add: animation_frame_def)
next
  case (Some h)
  assume "stage_inv st"
  then have "stage_inv (st\<lparr>scheduledFrame := None\<rparr>)"
    by (simp add: stage_inv_def all_tracks_stopped_def)
  then show ?thesis using Some by (simp add: animation_frame_def inv_updateVolume)
qed

lemma inv_onstop: "stage_inv st \<Longrightarrow> stage_inv (onstop now st)"
  by (auto simp: stage_inv_def onstop_def all_tracks_stopped_def Let_def stopped_map_stop_track)

lemma inv_cleanup: "stage_inv st \<Longrightarrow> stage_inv (cleanup st)"
  by (auto simp: stage_inv_def cleanup_def cancelAnimationFrame_def all_tracks_stopped_def Let_def
      stopped_map_stop_track split: option.splits)


lemma inv_stage_step: "stage_inv st \<Longrightarrow> stage_inv (stage_step e st)"
proof (cases e)
  case (SetupSettles outcome supported d)
  assume inv: "stage_inv st"
  show ?thesis
  proof (cases "setupPending st")
    case True
    then have "\<not> streamRef st" using inv by (simp add: stage_inv_def)
    then have "stage_inv (st\<lparr>setupPending := False\<rparr>)" "\<not> streamRef (st\<lparr>setupPending := False\<rparr>)"
      "\<not> setupPending (st\<lparr>setupPending := False\<rparr>)"
      using inv by (simp_all add: stage_inv_def all_tracks_stopped_def)
    then show ?thesis using SetupSettles True by (simp add: inv_setupStream)
  next
    case False
    then show ?thesis using SetupSettles inv by simp
  qed
next
  case (StopEvent now)
  assume inv: "stage_inv st"
  then have "stage_inv (st\<lparr>stopEventPending := False\<rparr>)"
    by (simp add: stage_inv_def all_tracks_stopped_def)
  then show ?thesis using StopEvent inv by (simp add: inv_onstop)
qed (simp_all add: inv_animation_frame inv_effects inv_prep_interval inv_skipPrep
      inv_startRecording inv_ondataavailable inv_recording_interval inv_stopRecording
      inv_click_addTime inv_cleanup)


lemma inv_run: "stage_inv st \<Longrightarrow> stage_inv (run es st)"
  unfolding run_def by (induction es arbitrary: st) (simp_all add: inv_stage_step)

lemma inv_reachable: "stage_inv (run es (mount cfg))"
  by (simp add: inv_run inv_mount)

lemma run_append: "run (es @ es') st = run es' (run es st)"
  by (simp add: run_def)





section \<open>The stage: durations, extensions, release\<close>

lemmas stage_defs = run_def mount_def setupStream_def acquire_def build_audio_def updateVolume_def
  getSupportedMimeType_def mime_types_def startRecording_def stopRecording_def effects_def
  auto_stop_def prep_effect_def recording_interval_def onstop_def finalDuration_def new_Blob_def
  click_addTime_def addTime_def cleanup_def cancelAnimationFrame_def Let_def

lemma recording_stage_eq:
  "recording_stage =
     \<lparr>config = example_config, isPrep = False, prepTimeLeft = 0, timeLeft = 60,
      isRecording = True, isReady = True, volume = 80, isMounted = True, setupPending = False,
      tracks = example_tracks, streamRef = True, audioContextRef = Some running,
      analyserRef = True, animationFrameRef = Some 1, scheduledFrame = Some 1, lastFrameId = 1,
      mediaRecorderRef = Some recording, mimeType = ''audio/webm'', chunksRef = [],
      startTimeRef = 1000000, stopEventPending = False, onstop_timeLeft = 60, finished = [],
      stage_alerts = []\<rparr>"
  by (simp add: recording_stage_def stage_defs example_config_def sum_list_replicate)




lemma ten_seconds_later:
  "run (replicate 10 RecordingInterval) recording_stage = recording_stage\<lparr>timeLeft := 50\<rparr>"
  by (simp add: recording_stage_eq run_def eval_nat_numeral recording_interval_def effects_def
      auto_stop_def prep_effect_def)

text \<open>
  C6: with a clock that runs forward, \<open>recorder.onstop\<close> delivers the seconds elapsed
  since the start (here 10.5). The claim about the fallback does not hold of the code:
  ten seconds into a session of 60, with 50 seconds left on the countdown and a clock
  set back behind the start, the duration delivered is 0 and not 60 - 50, because the
  handler reads the \<open>timeLeft\<close> of the first render, which is \<open>durationSeconds\<close>.
\<close>

theorem onstop_fallback_is_zero:
  "timeLeft (run (replicate 10 RecordingInterval @ [ClickStop]) recording_stage) = 50 \<and>
   durationSeconds (config (run (replicate 10 RecordingInterval @ [ClickStop]) recording_stage))
     = 60 \<and>
   map snd (finished (run (replicate 10 RecordingInterval @ [ClickStop, StopEvent 999000])
                        recording_stage)) = [0] \<and>
   map snd (finished (run (replicate 10 RecordingInterval @ [ClickStop, StopEvent 1010500])
                        recording_stage)) = [21 / 2]"
  by (simp add: run_append ten_seconds_later)
     (simp add: recording_stage_eq run_def stopRecording_def effects_def auto_stop_def
       prep_effect_def onstop_def finalDuration_def new_Blob_def Let_def example_config_def)

text \<open>In every state of a stage, the fallback of \<open>recorder.onstop\<close> is 0.\<close>

lemma finalDuration_reachable:
  "finalDuration now (run es (mount cfg)) =
     (if startTimeRef (run es (mount cfg)) < now
      then of_int (now - startTimeRef (run es (mount cfg))) / 1000 else 0)"
  using inv_reachable [of es cfg] by (simp add: finalDuration_def stage_inv_def Let_def)

lemma click_addTime_funpow:
  assumes "\<not> isPrep st" and "isRecording st"
  shows "(click_addTime ^^ n) st = st\<lparr>timeLeft := timeLeft st + 15 * int n\<rparr>"
proof (induction n)
  case 0
  show ?case by simp
next
  case (Suc n)
  then show ?case using assms by (simp add: click_addTime_def addTime_def)
qed

text \<open>
  C7: while recording, \<open>n\<close> clicks on "+15s" in a row add \<open>15 * n\<close> seconds to the time
  left, and the time left passes every bound; outside the recording the button does
  nothing.
\<close>

theorem addTime_adds_15_each:
  "(\<not> isPrep st \<and> isRecording st \<longrightarrow>
      timeLeft ((click_addTime ^^ n) st) = timeLeft st + 15 * int n \<and>
      (\<forall>bound. \<exists>m. bound < timeLeft ((click_addTime ^^ m) st))) \<and>
   (\<not> (\<not> isPrep st \<and> isRecording st) \<longrightarrow> (click_addTime ^^ n) st = st)"
proof -
  have idle: "(click_addTime ^^ n) st = st" if "\<not> (\<not> isPrep st \<and> isRecording st)"
    using that by (induction n) (auto simp: click_addTime_def)
  have unbounded: "\<exists>m. bound < timeLeft ((click_addTime ^^ m) st)"
    if "\<not> isPrep st" "isRecording st" for bound
  proof -
    have "bound < timeLeft st + 15 * int (nat (bound - timeLeft st) + 1)" by simp
    moreover have "timeLeft ((click_addTime ^^ m) st) = timeLeft st + 15 * int m" for m
      using click_addTime_funpow [OF that, of m] by simp
    ultimately show ?thesis by metis
  qed
  show ?thesis using idle unbounded click_addTime_funpow [of st n] by auto
qed

theorem addTime_adds_15_each_witness:
  "\<not> isPrep recording_stage \<and> isRecording recording_stage \<and>
   timeLeft recording_stage = 60 \<and>
   timeLeft ((click_addTime ^^ 3) recording_stage) = 105 \<and>
   (click_addTime ^^ 3) (mount example_config) = mount example_config"
proof -
  have a: "\<not> isPrep recording_stage \<and> isRecording recording_stage" "timeLeft recording_stage = 60"
    by (simp_all add: recording_stage_eq)
  have b: "\<not> (\<not> isPrep (mount example_config) \<and> isRecording (mount example_config))"
    by (simp add: mount_def)
  show ?thesis
    using addTime_adds_15_each [of recording_stage 3] addTime_adds_15_each [of "mount example_config" 3]
      a b by simp
qed




end
